theory Spec2Isabelle
  imports Main "HOL-Library.AList"
begin

section \<open>JavaScript values\<close>

text \<open>
  Request objects, JWT payloads and the objects the validators build are JSON-like
  JavaScript values. Numbers are modelled as integers: none of the functions below does
  arithmetic on a value it receives.
\<close>

datatype jsval =
    JUndefined
  | JNull
  | JBool bool
  | JNum int
  | JStr string
  | JArr "jsval list"
  | JObj "(string \<times> jsval) list"

text \<open>\<^verbatim>\<open>!v\<close> is \<open>\<not> truthy v\<close>.\<close>

fun truthy :: "jsval \<Rightarrow> bool" where
  "truthy JUndefined = False"
| "truthy JNull = False"
| "truthy (JBool b) = b"
| "truthy (JNum n) = (n \<noteq> 0)"
| "truthy (JStr s) = (s \<noteq> [])"
| "truthy (JArr xs) = True"
| "truthy (JObj kvs) = True"

text \<open>Reading a property of \<open>undefined\<close> or \<open>null\<close> throws a TypeError.\<close>

fun nullish :: "jsval \<Rightarrow> bool" where
  "nullish JUndefined = True"
| "nullish JNull = True"
| "nullish v = False"

text \<open>
  \<^verbatim>\<open>v.k\<close> for a value that is not nullish: the own property of an object, \<open>undefined\<close>
  when the object has no such key or the value is a primitive or an array (none of the
  keys read below is a built-in property).
\<close>

fun get_prop :: "jsval \<Rightarrow> string \<Rightarrow> jsval" where
  "get_prop (JObj kvs) k = (case map_of kvs k of None \<Rightarrow> JUndefined | Some v \<Rightarrow> v)"
| "get_prop v k = JUndefined"

text \<open>\<^verbatim>\<open>o[k] = v\<close>: an existing key keeps its place, a new key goes last.\<close>

fun set_prop :: "jsval \<Rightarrow> string \<Rightarrow> jsval \<Rightarrow> jsval" where
  "set_prop (JObj kvs) k v = JObj (AList.update k v kvs)"
| "set_prop w k v = w"

text \<open>\<^verbatim>\<open>{ ...a, ...b }\<close> for two objects; spreading a value that is not an object adds nothing.\<close>

fun entries :: "jsval \<Rightarrow> (string \<times> jsval) list" where
  "entries (JObj kvs) = kvs"
| "entries v = []"

definition spread :: "jsval \<Rightarrow> jsval \<Rightarrow> jsval" where
  "spread a b = JObj (fold (\<lambda>(k, v). AList.update k v) (entries b) (entries a))"

fun primitive :: "jsval \<Rightarrow> bool" where
  "primitive (JArr xs) = False"
| "primitive (JObj kvs) = False"
| "primitive v = True"

text \<open>
  \<^verbatim>\<open>a === b\<close> between values that come from two different parses: primitives are compared
  by value, arrays and objects by identity, so two of them are never equal.
\<close>

definition strict_eq :: "jsval \<Rightarrow> jsval \<Rightarrow> bool" where
  "strict_eq a b = (primitive a \<and> a = b)"

text \<open>\<^verbatim>\<open>Array.isArray(v)\<close> and \<^verbatim>\<open>xs.includes(s)\<close> for a string \<open>s\<close>.\<close>

fun isArray :: "jsval \<Rightarrow> bool" where
  "isArray (JArr xs) = True"
| "isArray v = False"

fun elems :: "jsval \<Rightarrow> jsval list" where
  "elems (JArr xs) = xs"
| "elems v = []"

definition js_includes :: "jsval list \<Rightarrow> jsval \<Rightarrow> bool" where
  "js_includes xs v = (\<exists>x \<in> set xs. strict_eq x v)"

text \<open>\<^verbatim>\<open>s.split(' ')\<close>: the pieces between single spaces, empty pieces included.\<close>

fun js_split :: "string \<Rightarrow> string list" where
  "js_split [] = [[]]"
| "js_split (c # cs) =
     (if c = CHR '' '' then [] # js_split cs
      else (case js_split cs of [] \<Rightarrow> [[c]] | w # ws \<Rightarrow> (c # w) # ws))"

text \<open>String conversion, as \<^verbatim>\<open>'/' + v\<close> performs it.\<close>

function show_nat :: "nat \<Rightarrow> string" where
  "show_nat n =
     (if n < 10 then [char_of (48 + n)]
      else show_nat (n div 10) @ [char_of (48 + n mod 10)])"
  by pat_completeness auto
termination
  by (relation "measure id") auto

definition show_int :: "int \<Rightarrow> string" where
  "show_int i = (if i < 0 then CHR ''-'' # show_nat (nat (- i)) else show_nat (nat i))"

fun join_comma :: "string list \<Rightarrow> string" where
  "join_comma [] = []"
| "join_comma [s] = s"
| "join_comma (s # t # ss) = s @ '','' @ join_comma (t # ss)"

fun js_toString :: "jsval \<Rightarrow> string" where
  "js_toString JUndefined = ''undefined''"
| "js_toString JNull = ''null''"
| "js_toString (JBool b) = (if b then ''true'' else ''false'')"
| "js_toString (JNum i) = show_int i"
| "js_toString (JStr s) = s"
| "js_toString (JArr xs) = join_comma (map (\<lambda>x. if nullish x then [] else js_toString x) xs)"
| "js_toString (JObj kvs) = ''[object Object]''"

section \<open>Errors\<close>

text \<open>
  One constructor for each message the code throws with \<^verbatim>\<open>new Error(...)\<close>; the scope error
  of the access-token functions carries the scope it names. \<open>TypeError\<close> is what the
  runtime throws on a property read of \<open>undefined\<close>/\<open>null\<close> or a call of a missing method,
  \<open>LibraryError\<close> what a library call (HTTP fetch, key conversion, signature check,
  signing) throws where the code does not catch it.
\<close>

datatype error =
    MISSING_LTI_MESSAGE_HINT_CLAIM
  | INVALID_MESSAGE_HINT_CLAIM
  | MISSING_NONCE_CLAIM
  | NONCE_ALREADY_RECEIVED
  | INVALID_SCOPE_CLAIM
  | INVALID_RESPONSE_TYPE_CLAIM
  | INVALID_RESPONSE_MODE_CLAIM
  | INVALID_PROMPT_CLAIM
  | MISSING_CLIENT_ID_CLAIM
  | INVALID_CLIENT_ID_CLAIM
  | MISSING_LTI_DEPLOYMENT_ID_CLAIM
  | INVALID_LTI_DEPLOYMENT_ID_CLAIM
  | MISSING_REDIRECT_URI_CLAIM
  | INVALID_REDIRECT_URI_CLAIM
  | MISSING_LOGIN_HINT_CLAIM
  | MISSING_JWT_PARAMETER
  | TOOL_NOT_FOUND
  | INVALID_AUD_CLAIM
  | INVALID_DEPLOYMENT_ID_CLAIM
  | INVALID_MESSAGE_TYPE_CLAIM
  | INVALID_VERSION_CLAIM
  | MISSING_LOGIN_REQUEST_PARAMETER
  | MISSING_IDTOKEN_PARAMETER
  | INVALID_TOOL_LINK_ID
  | INVALID_GRANT_TYPE_CLAIM
  | INVALID_CLIENT_ASSERTION_TYPE_CLAIM
  | INVALID_CLIENT_ID
  | MISSING_SCOPE_CLAIM
  | INVALID_SCOPE_CLAIM_Details string
  | MISSING_CLIENT_ASSERTION_CLAIM
  | INVALID_ACCESS_TOKEN
  | MISSING_KID_PARAMETER
  | KEYSET_NOT_FOUND
  | KEY_NOT_FOUND
  | AUTHCONFIG_NOT_FOUND
  | MISSING_AUTHORIZATION_HEADER
  | INVALID_AUTHORIZATION_HEADER
  | TypeError
  | LibraryError

section \<open>Collaborators\<close>

text \<open>
  Modelled from the spec: the Tool and ToolLink classes, which the code requires from
  \<^verbatim>\<open>./Tool\<close> and \<^verbatim>\<open>./ToolLink\<close>, are not translated from code.
  A registered Tool is the record of what its accessor methods (\<^verbatim>\<open>authConfig()\<close>,
  \<^verbatim>\<open>deploymentId()\<close>, \<^verbatim>\<open>redirectionURIs()\<close>, \<^verbatim>\<open>scopes()\<close>, \<^verbatim>\<open>privacy()\<close>, \<^verbatim>\<open>privateKey()\<close>) and
  its \<^verbatim>\<open>toJSON()\<close> return: client configuration with authentication method and key
  material, deployment id, redirect URIs, scope codes, a numeric privacy level, custom
  parameters and its own signing key. A ToolLink has a url, a privacy override and custom
  parameters.
\<close>

record tool =
  tool_authMethod :: string
  tool_authKey :: jsval
  tool_deploymentId :: string
  tool_redirectionURIs :: "string list"
  tool_scopes :: "string list"
  tool_privacy :: int
  tool_privateKey :: jsval
  tool_name :: string
  tool_customParameters :: jsval
  tool_kid :: string

record toolLink =
  toolLink_url :: string
  toolLink_privacy :: int
  toolLink_customParameters :: jsval

text \<open>
  The consumer configuration object that \<^verbatim>\<open>setup\<close> assembles: the parsed consumer URL with
  the URL itself and the three routes added.
\<close>

record consumer =
  consumer_url :: string
  consumer_protocol :: jsval
  consumer_hostname :: jsval
  consumer_port :: jsval
  consumer_auth :: jsval
  consumer_hash :: jsval
  consumer_accesstokenRoute :: string
  consumer_deepLinkingRequestRoute :: string
  consumer_membershipsRoute :: string

text \<open>
  Everything else the code calls without defining it is a parameter: the JWT
  library (\<open>None\<close> where it throws), the HTTP fetch of a key set, the JWK conversions, the
  Tool and ToolLink registries (\<open>None\<close> for the falsy result of an unknown id), the URL
  formatter, the two random strings, and the constant tables of the helper modules
  \<^verbatim>\<open>messageTypes\<close>, \<^verbatim>\<open>privacy\<close> and \<^verbatim>\<open>scopes\<close> (the last as its key/value pairs in key order).
\<close>

record env =
  jwt_verify :: "jsval \<Rightarrow> jsval \<Rightarrow> jsval \<Rightarrow> jsval option"
  jwt_decode :: "string \<Rightarrow> jsval"
  jwt_sign :: "jsval \<Rightarrow> jsval \<Rightarrow> jsval \<Rightarrow> string option"
  got_get_json :: "jsval \<Rightarrow> jsval option"
  Jwk_export :: "jsval \<Rightarrow> jsval option"
  Jwk_jwk2pem :: "jsval \<Rightarrow> jsval option"
  Tool_getTool :: "jsval \<Rightarrow> tool option"
  ToolLink_getToolLink :: "jsval \<Rightarrow> toolLink option"
  url_format :: "jsval \<Rightarrow> string"
  crypto_randomBytes_hex :: string
  random_nonce :: string
  DEEPLINKING_LAUNCH :: string
  DEEPLINKING_RESPONSE :: string
  privacy_COMPLETE :: int
  privacy_EMAIL :: int
  privacy_NAME :: int
  privacy_INHERIT :: int
  validScopes :: "(string \<times> string) list"

text \<open>
  \<^verbatim>\<open>jwt.decode(token, { complete: true })\<close>: the library returns \<open>null\<close> for anything that
  is not a compact JWS string, in particular for \<open>undefined\<close>; for a string it returns
  \<open>null\<close> or the object with \<open>header\<close>, \<open>payload\<close> and \<open>signature\<close>.
\<close>

definition jwt_decode_complete :: "env \<Rightarrow> jsval \<Rightarrow> jsval" where
  "jwt_decode_complete env token =
     (case token of JStr s \<Rightarrow> jwt_decode env s | _ \<Rightarrow> JNull)"

text \<open>
  Modelled from the spec: the Database module, which the code requires from
  \<^verbatim>\<open>GlobalUtils/Database\<close>, is not translated from code. The
  \<^verbatim>\<open>nonce\<close> collection is the list of the nonce values recorded so far;
  \<^verbatim>\<open>Database.get('nonce', { nonce: n })\<close> is truthy when a record for \<open>n\<close> exists and
  \<^verbatim>\<open>Database.insert('nonce', { nonce: n })\<close> adds one. Records are never updated or deleted.
\<close>

type_synonym ledger = "jsval list"

definition Database_get :: "ledger \<Rightarrow> jsval \<Rightarrow> bool" where
  "Database_get db n = (n \<in> set db)"

definition Database_insert :: "ledger \<Rightarrow> jsval \<Rightarrow> ledger" where
  "Database_insert db n = db @ [n]"

section \<open>Auth.validateLoginRequest\<close>

text \<open>
  The checks up to the message hint: the request object is read, the hint must be present
  and must verify under the consumer's encryption key.
\<close>

definition login_messageHint :: "env \<Rightarrow> jsval \<Rightarrow> jsval \<Rightarrow> error + jsval" where
  "login_messageHint env obj encryptionkey =
     (if nullish obj then Inl TypeError
      else if \<not> truthy (get_prop obj ''lti_message_hint'') then Inl MISSING_LTI_MESSAGE_HINT_CLAIM
      else (case jwt_verify env (get_prop obj ''lti_message_hint'') encryptionkey JUndefined of
              None \<Rightarrow> Inl INVALID_MESSAGE_HINT_CLAIM
            | Some messageHint \<Rightarrow> Inr messageHint))"

text \<open>The checks after the nonce has been stored, and the service action they build.\<close>

definition login_serviceAction :: "env \<Rightarrow> jsval \<Rightarrow> jsval \<Rightarrow> error + jsval" where
  "login_serviceAction env obj messageHint =
     (if get_prop obj ''scope'' \<noteq> JStr ''openid'' then Inl INVALID_SCOPE_CLAIM
      else if get_prop obj ''response_type'' \<noteq> JStr ''id_token'' then Inl INVALID_RESPONSE_TYPE_CLAIM
      else if get_prop obj ''response_mode'' \<noteq> JStr ''form_post'' then Inl INVALID_RESPONSE_MODE_CLAIM
      else if get_prop obj ''prompt'' \<noteq> JStr ''none'' then Inl INVALID_PROMPT_CLAIM
      else if \<not> truthy (get_prop obj ''client_id'') then Inl MISSING_CLIENT_ID_CLAIM
      else (case Tool_getTool env (get_prop obj ''client_id'') of
              None \<Rightarrow> Inl INVALID_CLIENT_ID_CLAIM
            | Some tool \<Rightarrow>
                if \<not> truthy (get_prop obj ''lti_deployment_id'') then Inl MISSING_LTI_DEPLOYMENT_ID_CLAIM
                else if JStr (tool_deploymentId tool) \<noteq> get_prop obj ''lti_deployment_id''
                  then Inl INVALID_LTI_DEPLOYMENT_ID_CLAIM
                else if \<not> truthy (get_prop obj ''redirect_uri'') then Inl MISSING_REDIRECT_URI_CLAIM
                else if \<not> js_includes (map JStr (tool_redirectionURIs tool)) (get_prop obj ''redirect_uri'')
                  then Inl INVALID_REDIRECT_URI_CLAIM
                else if \<not> truthy (get_prop obj ''login_hint'') then Inl MISSING_LOGIN_HINT_CLAIM
                else if nullish messageHint then Inl TypeError
                else
                  (let serviceAction = JObj
                     [(''service'', JStr ''CORE''),
                      (''clientId'', get_prop obj ''client_id''),
                      (''deploymentId'', get_prop obj ''lti_deployment_id''),
                      (''params'', JObj
                         [(''user'', get_prop obj ''login_hint''),
                          (''toolLink'', get_prop messageHint ''toolLink''),
                          (''resource'', get_prop messageHint ''resource''),
                          (''type'', get_prop messageHint ''type''),
                          (''redirectUri'', get_prop obj ''redirect_uri''),
                          (''state'', get_prop obj ''state'')])]
                   in if get_prop messageHint ''type'' = JStr (DEEPLINKING_LAUNCH env)
                      then Inr (set_prop serviceAction ''dlState'' (JStr (crypto_randomBytes_hex env)))
                      else Inr serviceAction)))"

text \<open>
  The whole validator: message hint, then the nonce (present, not yet recorded, then
  recorded), then the remaining checks. It returns its result and the nonce collection
  it leaves behind.
\<close>

definition validateLoginRequest ::
  "env \<Rightarrow> jsval \<Rightarrow> jsval \<Rightarrow> ledger \<Rightarrow> (error + jsval) \<times> ledger" where
  "validateLoginRequest env obj encryptionkey db =
     (case login_messageHint env obj encryptionkey of
        Inl e \<Rightarrow> (Inl e, db)
      | Inr messageHint \<Rightarrow>
          if \<not> truthy (get_prop obj ''nonce'') then (Inl MISSING_NONCE_CLAIM, db)
          else if Database_get db (get_prop obj ''nonce'') then (Inl NONCE_ALREADY_RECEIVED, db)
          else (login_serviceAction env obj messageHint, Database_insert db (get_prop obj ''nonce'')))"

section \<open>verifyToken\<close>

text \<open>\<^verbatim>\<open>keyset.find(key => key.kid === kid)\<close> over the elements of the fetched key set.\<close>

fun keyset_find :: "jsval list \<Rightarrow> jsval \<Rightarrow> error + jsval" where
  "keyset_find [] kid = Inr JUndefined"
| "keyset_find (key # keys) kid =
     (if nullish key then Inl TypeError
      else if strict_eq (get_prop key ''kid'') kid then Inr key
      else keyset_find keys kid)"

definition jwt_verify_alg :: "env \<Rightarrow> jsval \<Rightarrow> jsval \<Rightarrow> jsval \<Rightarrow> error + jsval" where
  "jwt_verify_alg env token key alg =
     (case jwt_verify env token key (JObj [(''algorithms'', JArr [alg])]) of
        None \<Rightarrow> Inl LibraryError
      | Some verified \<Rightarrow> Inr verified)"

definition verifyToken :: "env \<Rightarrow> jsval \<Rightarrow> tool \<Rightarrow> jsval \<Rightarrow> jsval \<Rightarrow> error + jsval" where
  "verifyToken env token tool alg kid =
     (if tool_authMethod tool = ''JWK_SET'' then
        (if \<not> truthy kid then Inl MISSING_KID_PARAMETER
         else (case got_get_json env (tool_authKey tool) of
                 None \<Rightarrow> Inl LibraryError
               | Some res \<Rightarrow>
                   if nullish res then Inl TypeError
                   else if \<not> truthy (get_prop res ''keys'') then Inl KEYSET_NOT_FOUND
                   else if \<not> isArray (get_prop res ''keys'') then Inl TypeError
                   else (case keyset_find (elems (get_prop res ''keys'')) kid of
                           Inl e \<Rightarrow> Inl e
                         | Inr jwk \<Rightarrow>
                             if \<not> truthy jwk then Inl KEY_NOT_FOUND
                             else (case Jwk_export env (JObj [(''jwk'', jwk)]) of
                                     None \<Rightarrow> Inl LibraryError
                                   | Some key \<Rightarrow> jwt_verify_alg env token key alg))))
      else if tool_authMethod tool = ''JWK_KEY'' then
        (if \<not> truthy (tool_authKey tool) then Inl KEY_NOT_FOUND
         else (case Jwk_jwk2pem env (tool_authKey tool) of
                 None \<Rightarrow> Inl LibraryError
               | Some key \<Rightarrow> jwt_verify_alg env token key alg))
      else if tool_authMethod tool = ''RSA_KEY'' then
        (if \<not> truthy (tool_authKey tool) then Inl KEY_NOT_FOUND
         else jwt_verify_alg env token (tool_authKey tool) alg)
      else Inl AUTHCONFIG_NOT_FOUND)"

section \<open>Auth.validateDeepLinkingRequest\<close>

text \<open>
  The checks up to the signature: the JWT parameter, its unverified decoding, the issuing
  Tool, the verification of the token.
\<close>

definition deepLinking_verified :: "env \<Rightarrow> jsval \<Rightarrow> error + (tool \<times> jsval)" where
  "deepLinking_verified env obj =
     (if nullish obj then Inl TypeError
      else if \<not> truthy (get_prop obj ''JWT'') then Inl MISSING_JWT_PARAMETER
      else
        (let decoded = jwt_decode_complete env (get_prop obj ''JWT'') in
         if nullish decoded \<or> nullish (get_prop decoded ''payload'') then Inl TypeError
         else (case Tool_getTool env (get_prop (get_prop decoded ''payload'') ''iss'') of
                 None \<Rightarrow> Inl TOOL_NOT_FOUND
               | Some tool \<Rightarrow>
                   if nullish (get_prop decoded ''header'') then Inl TypeError
                   else (case verifyToken env (get_prop obj ''JWT'') tool
                                 (get_prop (get_prop decoded ''header'') ''alg'')
                                 (get_prop (get_prop decoded ''header'') ''kid'') of
                           Inl e \<Rightarrow> Inl e
                         | Inr verified \<Rightarrow>
                             if nullish verified then Inl TypeError
                             else Inr (tool, verified)))))"

text \<open>The checks after the nonce, and the service action they build.\<close>

definition deepLinking_serviceAction ::
  "env \<Rightarrow> tool \<Rightarrow> jsval \<Rightarrow> jsval \<Rightarrow> consumer \<Rightarrow> error + jsval" where
  "deepLinking_serviceAction env tool verified query consumer =
     (if get_prop verified ''aud'' \<noteq> JStr (consumer_url consumer) then Inl INVALID_AUD_CLAIM
      else if get_prop verified ''https://purl.imsglobal.org/spec/lti/claim/deployment_id''
                \<noteq> JStr (tool_deploymentId tool)
        then Inl INVALID_DEPLOYMENT_ID_CLAIM
      else if get_prop verified ''https://purl.imsglobal.org/spec/lti/claim/message_type''
                \<noteq> JStr (DEEPLINKING_RESPONSE env)
        then Inl INVALID_MESSAGE_TYPE_CLAIM
      else if get_prop verified ''https://purl.imsglobal.org/spec/lti/claim/version'' \<noteq> JStr ''1.3.0''
        then Inl INVALID_VERSION_CLAIM
      else if nullish query then Inl TypeError
      else Inr (JObj
        [(''service'', JStr ''DEEPLINKING''),
         (''clientId'', get_prop verified ''iss''),
         (''params'', JObj
            [(''deploymentId'', get_prop verified ''deploymentId''),
             (''contentItems'', get_prop verified ''https://purl.imsglobal.org/spec/lti-dl/claim/content_items''),
             (''message'', get_prop verified ''https://purl.imsglobal.org/spec/lti-dl/claim/msg''),
             (''log'', get_prop verified ''https://purl.imsglobal.org/spec/lti-dl/claim/log''),
             (''error'', get_prop verified ''https://purl.imsglobal.org/spec/lti-dl/claim/errormsg''),
             (''errorLog'', get_prop verified ''https://purl.imsglobal.org/spec/lti-dl/claim/errorlog''),
             (''contextId'', get_prop query ''contextId''),
             (''state'', get_prop query ''dlState'')])]))"

definition validateDeepLinkingRequest ::
  "env \<Rightarrow> jsval \<Rightarrow> jsval \<Rightarrow> consumer \<Rightarrow> ledger \<Rightarrow> (error + jsval) \<times> ledger" where
  "validateDeepLinkingRequest env obj query consumer db =
     (case deepLinking_verified env obj of
        Inl e \<Rightarrow> (Inl e, db)
      | Inr (tool, verified) \<Rightarrow>
          if truthy (get_prop verified ''nonce'') then
            (if Database_get db (get_prop verified ''nonce'') then (Inl NONCE_ALREADY_RECEIVED, db)
             else (deepLinking_serviceAction env tool verified query consumer,
                   Database_insert db (get_prop verified ''nonce'')))
          else (deepLinking_serviceAction env tool verified query consumer, db))"

section \<open>Auth.buildIdToken\<close>

text \<open>
  The email and name claims a privacy level lets through; the code has these lines once in
  the deep-linking branch and once in the resource-launch branch.
\<close>

definition privacy_claims :: "env \<Rightarrow> int \<Rightarrow> jsval \<Rightarrow> jsval \<Rightarrow> jsval" where
  "privacy_claims env privacy user idtoken =
     (let idtoken1 =
        (if privacy = privacy_COMPLETE env \<or> privacy = privacy_EMAIL env
         then set_prop idtoken ''email'' (get_prop user ''email'')
         else idtoken)
      in if privacy = privacy_COMPLETE env \<or> privacy = privacy_NAME env
         then set_prop (set_prop (set_prop idtoken1
                ''given_name'' (get_prop user ''given_name''))
                ''family_name'' (get_prop user ''family_name''))
                ''name'' (get_prop user ''name'')
         else idtoken1)"

text \<open>
  \<^verbatim>\<open>url.format\<close> of the consumer's address with a path and, for the deep-linking return
  URL, a query.
\<close>

definition consumer_url_parts :: "consumer \<Rightarrow> (string \<times> jsval) list" where
  "consumer_url_parts consumer =
     [(''protocol'', consumer_protocol consumer),
      (''hostname'', consumer_hostname consumer),
      (''port'', consumer_port consumer),
      (''auth'', consumer_auth consumer),
      (''hash'', consumer_hash consumer)]"

text \<open>The claims of the ID Token, before signing, with the Tool that will sign them.\<close>

definition buildIdToken_claims ::
  "env \<Rightarrow> jsval \<Rightarrow> jsval \<Rightarrow> consumer \<Rightarrow> error + (tool \<times> jsval)" where
  "buildIdToken_claims env serviceAction idtoken_in consumer =
     (if \<not> truthy serviceAction then Inl MISSING_LOGIN_REQUEST_PARAMETER
      else if \<not> truthy idtoken_in then Inl MISSING_IDTOKEN_PARAMETER
      else (case Tool_getTool env (get_prop serviceAction ''clientId'') of
        None \<Rightarrow> Inl INVALID_CLIENT_ID_CLAIM
      | Some tool \<Rightarrow>
         (let params = get_prop serviceAction ''params'';
              user = get_prop idtoken_in ''user'';
              launch = get_prop idtoken_in ''launch'';
              context = get_prop launch ''context''
          in if nullish params \<or> nullish user \<or> nullish launch \<or> nullish context then Inl TypeError
          else
           (let idtoken0 = JObj
              [(''iss'', JStr (consumer_url consumer)),
               (''aud'', get_prop serviceAction ''clientId''),
               (''https://purl.imsglobal.org/spec/lti/claim/deployment_id'',
                  get_prop serviceAction ''deploymentId''),
               (''sub'', get_prop params ''user''),
               (''https://purl.imsglobal.org/spec/lti/claim/roles'', get_prop user ''roles''),
               (''https://purl.imsglobal.org/spec/lti/claim/context'', JObj
                  [(''id'', get_prop context ''id''),
                   (''label'', get_prop context ''label''),
                   (''title'', get_prop context ''title''),
                   (''type'', get_prop context ''type'')]),
               (''https://purl.imsglobal.org/spec/lti/claim/version'', JStr ''1.3.0''),
               (''nonce'', JStr (random_nonce env))];
              idtoken1 = set_prop idtoken0 ''https://purl.imsglobal.org/spec/lti/claim/message_type''
                           (get_prop params ''type'');
              branch =
               (if get_prop params ''type'' = JStr (DEEPLINKING_LAUNCH env) then
                  (let deepLinkingReturnUrl = url_format env (JObj (consumer_url_parts consumer @
                         [(''pathname'', JStr (consumer_deepLinkingRequestRoute consumer)),
                          (''query'', JObj [(''contextId'', get_prop context ''id''),
                                           (''dlState'', get_prop params ''dlState'')])]));
                       idtoken2 = set_prop idtoken1 ''https://purl.imsglobal.org/spec/lti/claim/custom''
                                    (tool_customParameters tool);
                       idtoken3 = set_prop idtoken2
                          ''https://purl.imsglobal.org/spec/lti-dl/claim/deep_linking_settings''
                          (JObj [(''deep_link_return_url'', JStr deepLinkingReturnUrl),
                                 (''accept_types'', JArr [JStr ''ltiResourceLink'']),
                                 (''accept_presentation_document_targets'',
                                    JArr [JStr ''iframe'', JStr ''window'']),
                                 (''accept_multiple'', JBool False),
                                 (''auto_create'', JBool False),
                                 (''title'', JStr (tool_name tool))])
                   in Inr (privacy_claims env (tool_privacy tool) user idtoken3))
                else
                  (case ToolLink_getToolLink env (get_prop params ''toolLink'') of
                     None \<Rightarrow> Inl INVALID_TOOL_LINK_ID
                   | Some toolLink \<Rightarrow>
                      (let idtoken2 = set_prop idtoken1 ''https://purl.imsglobal.org/spec/lti/claim/custom''
                                    (spread (tool_customParameters tool) (toolLink_customParameters toolLink));
                           idtoken3 = set_prop idtoken2
                                    ''https://purl.imsglobal.org/spec/lti/claim/target_link_uri''
                                    (JStr (toolLink_url toolLink));
                           idtoken4 = set_prop idtoken3
                                    ''https://purl.imsglobal.org/spec/lti/claim/resource_link''
                                    (get_prop launch ''resource'');
                           privacy = (if toolLink_privacy toolLink = privacy_INHERIT env
                                      then tool_privacy tool else toolLink_privacy toolLink)
                       in Inr (privacy_claims env privacy user idtoken4))))
            in (case branch of
                  Inl e \<Rightarrow> Inl e
                | Inr idtoken \<Rightarrow>
                    if ''MEMBERSHIPS'' \<in> set (tool_scopes tool) then
                      (let membershipsUrl = url_format env (JObj (consumer_url_parts consumer @
                             [(''pathname'', JStr (consumer_membershipsRoute consumer @ ''/'' @
                                                    js_toString (get_prop context ''id'')))]))
                       in Inr (tool, set_prop idtoken
                            ''https://purl.imsglobal.org/spec/lti-nrps/claim/namesroleservice''
                            (JObj [(''context_memberships_url'', JStr membershipsUrl),
                                   (''service_versions'', JArr [JStr ''2.0''])])))
                    else Inr (tool, idtoken))))))"

text \<open>The signed ID Token: the claims, signed with the Tool's private key.\<close>

definition buildIdToken :: "env \<Rightarrow> jsval \<Rightarrow> jsval \<Rightarrow> consumer \<Rightarrow> error + string" where
  "buildIdToken env serviceAction idtoken_in consumer =
     (case buildIdToken_claims env serviceAction idtoken_in consumer of
        Inl e \<Rightarrow> Inl e
      | Inr (tool, idtoken) \<Rightarrow>
          (case jwt_sign env idtoken (tool_privateKey tool)
                  (JObj [(''algorithm'', JStr ''RS256''), (''expiresIn'', JStr ''24h''),
                         (''keyid'', JStr (tool_kid tool))]) of
             None \<Rightarrow> Inl LibraryError
           | Some token \<Rightarrow> Inr token))"

section \<open>Auth.generateAccessToken and Auth.validateAccessToken\<close>

text \<open>\<^verbatim>\<open>getScopeCode\<close>: the first key of the scopes table whose value is the given one.\<close>

definition getScopeCode :: "env \<Rightarrow> string \<Rightarrow> string option" where
  "getScopeCode env v = map_option fst (find (\<lambda>(key, w). w = v) (validScopes env))"

text \<open>
  The negation of \<^verbatim>\<open>!code || !toolScopes.includes(code)\<close> for \<^verbatim>\<open>code = getScopeCode(scope)\<close>.
\<close>

definition scope_authorized :: "env \<Rightarrow> string list \<Rightarrow> string \<Rightarrow> bool" where
  "scope_authorized env toolScopes scope =
     (case getScopeCode env scope of
        None \<Rightarrow> False
      | Some code \<Rightarrow> code \<noteq> [] \<and> code \<in> set toolScopes)"

text \<open>The loop over the requested scopes: the first scope that fails is the one thrown.\<close>

fun check_scopes :: "env \<Rightarrow> string list \<Rightarrow> string list \<Rightarrow> error option" where
  "check_scopes env toolScopes [] = None"
| "check_scopes env toolScopes (scope # scopes) =
     (if \<not> scope_authorized env toolScopes scope then Some (INVALID_SCOPE_CLAIM_Details scope)
      else check_scopes env toolScopes scopes)"

definition generateAccessToken :: "env \<Rightarrow> jsval \<Rightarrow> consumer \<Rightarrow> jsval \<Rightarrow> error + jsval" where
  "generateAccessToken env body consumer encryptionkey =
     (if nullish body then Inl TypeError
      else if get_prop body ''grant_type'' \<noteq> JStr ''client_credentials''
        then Inl INVALID_GRANT_TYPE_CLAIM
      else if get_prop body ''client_assertion_type''
                \<noteq> JStr ''urn:ietf:params:oauth:client-assertion-type:jwt-bearer''
        then Inl INVALID_CLIENT_ASSERTION_TYPE_CLAIM
      else
       (let decoded = jwt_decode_complete env (get_prop body ''client_assertion'') in
        if nullish decoded \<or> nullish (get_prop decoded ''payload'') then Inl TypeError
        else
         (let payload = get_prop decoded ''payload'' in
          case Tool_getTool env (get_prop payload ''sub'') of
            None \<Rightarrow> Inl INVALID_CLIENT_ID
          | Some tool \<Rightarrow>
             if \<not> truthy (get_prop body ''scope'') then Inl MISSING_SCOPE_CLAIM
             else (case get_prop body ''scope'' of
               JStr s \<Rightarrow>
                (case check_scopes env (tool_scopes tool) (js_split s) of
                   Some e \<Rightarrow> Inl e
                 | None \<Rightarrow>
                    if \<not> truthy (get_prop body ''client_assertion'')
                      then Inl MISSING_CLIENT_ASSERTION_CLAIM
                    else
                     (let accesstokenURL = url_format env (JObj (consumer_url_parts consumer @
                            [(''pathname'', JStr (consumer_accesstokenRoute consumer))]))
                      in if isArray (get_prop payload ''aud'')
                            \<and> \<not> js_includes (elems (get_prop payload ''aud'')) (JStr accesstokenURL)
                           then Inl INVALID_AUD_CLAIM
                         else if get_prop payload ''aud'' \<noteq> JStr accesstokenURL
                           then Inl INVALID_AUD_CLAIM
                         else if nullish (get_prop decoded ''header'') then Inl TypeError
                         else (case verifyToken env (get_prop body ''client_assertion'') tool
                                       (get_prop (get_prop decoded ''header'') ''alg'')
                                       (get_prop (get_prop decoded ''header'') ''kid'') of
                            Inl e \<Rightarrow> Inl e
                          | Inr verified \<Rightarrow>
                             (case jwt_sign env
                                     (JObj [(''clientId'', get_prop payload ''sub''),
                                            (''scopes'', get_prop body ''scope'')])
                                     encryptionkey (JObj [(''expiresIn'', JNum 3600)]) of
                                None \<Rightarrow> Inl LibraryError
                              | Some accessToken \<Rightarrow> Inr (JObj
                                  [(''access_token'', JStr accessToken),
                                   (''token_type'', JStr ''bearer''),
                                   (''expires_in'', JNum 3600),
                                   (''scope'', get_prop body ''scope'')])))))
             | _ \<Rightarrow> Inl TypeError))))"

definition Auth_validateAccessToken :: "env \<Rightarrow> jsval \<Rightarrow> string \<Rightarrow> jsval \<Rightarrow> error + jsval" where
  "Auth_validateAccessToken env token scope encryptionkey =
     (case jwt_verify env token encryptionkey JUndefined of
        None \<Rightarrow> Inl INVALID_ACCESS_TOKEN
      | Some verified \<Rightarrow>
         (case get_prop verified ''scopes'' of
            JStr s \<Rightarrow>
              if scope \<notin> set (js_split s) then Inl (INVALID_SCOPE_CLAIM_Details scope)
              else (case Tool_getTool env (get_prop verified ''clientId'') of
                      None \<Rightarrow> Inl TOOL_NOT_FOUND
                    | Some tool \<Rightarrow>
                        if \<not> scope_authorized env (tool_scopes tool) scope
                          then Inl (INVALID_SCOPE_CLAIM_Details scope)
                        else Inr (set_prop verified ''privacy'' (JNum (tool_privacy tool))))
          | _ \<Rightarrow> Inl TypeError))"

section \<open>The access-token check of the service routes\<close>

text \<open>
  \<^verbatim>\<open>validateAccessToken\<close> of \<^verbatim>\<open>Consumer.setup\<close>: it either answers 401 itself, with the
  message of the error it caught, or hands the token to \<^verbatim>\<open>Auth.validateAccessToken\<close> and
  returns that call's promise (which it does not await, so an error of that call goes to
  the route handler).
\<close>

datatype route_result = Responded401 error | Validation "error + jsval"

definition validateAccessToken :: "env \<Rightarrow> jsval \<Rightarrow> string \<Rightarrow> jsval \<Rightarrow> route_result" where
  "validateAccessToken env authorization scope encryptionkey =
     (if \<not> truthy authorization then Responded401 MISSING_AUTHORIZATION_HEADER
      else (case authorization of
         JStr s \<Rightarrow>
           (let parts = js_split s in
            if length parts = 2 \<and> (parts ! 0 = ''Bearer'' \<or> parts ! 0 = ''bearer'')
            then Validation (Auth_validateAccessToken env (JStr (parts ! 1)) scope encryptionkey)
            else Responded401 INVALID_AUTHORIZATION_HEADER)
       | _ \<Rightarrow> Responded401 TypeError))"

section \<open>Sequences of requests\<close>

text \<open>
  The two kinds of request that reach the nonce collection, handled one after the other,
  each on the collection the previous one left behind.
\<close>

datatype request =
    LoginRequest jsval jsval
  | DeepLinkingResponse jsval jsval consumer

fun handle :: "env \<Rightarrow> request \<Rightarrow> ledger \<Rightarrow> (error + jsval) \<times> ledger" where
  "handle env (LoginRequest obj encryptionkey) db = validateLoginRequest env obj encryptionkey db"
| "handle env (DeepLinkingResponse obj query consumer) db =
     validateDeepLinkingRequest env obj query consumer db"

fun run :: "env \<Rightarrow> request list \<Rightarrow> ledger \<Rightarrow> (error + jsval) list \<times> ledger" where
  "run env [] db = ([], db)"
| "run env (r # rs) db =
     (case handle env r db of
        (res, db') \<Rightarrow> (case run env rs db' of (ress, db'') \<Rightarrow> (res # ress, db'')))"

text \<open>
  The nonce a request presents to the nonce check: the \<open>nonce\<close> parameter of a login request
  whose message hint verifies, the \<open>nonce\<close> claim of a deep-linking response whose signature
  verifies; \<open>None\<close> when the request fails before the nonce check or carries no nonce.
\<close>

fun presented_nonce :: "env \<Rightarrow> request \<Rightarrow> jsval option" where
  "presented_nonce env (LoginRequest obj encryptionkey) =
     (case login_messageHint env obj encryptionkey of
        Inl e \<Rightarrow> None
      | Inr messageHint \<Rightarrow>
          if truthy (get_prop obj ''nonce'') then Some (get_prop obj ''nonce'') else None)"
| "presented_nonce env (DeepLinkingResponse obj query consumer) =
     (case deepLinking_verified env obj of
        Inl e \<Rightarrow> None
      | Inr (tool, verified) \<Rightarrow>
          if truthy (get_prop verified ''nonce'') then Some (get_prop verified ''nonce'') else None)"

text \<open>
  How many requests of a sequence present the nonce \<open>n\<close> and are not turned away with
  \<open>NONCE_ALREADY_RECEIVED\<close>.
\<close>

fun accept_count :: "env \<Rightarrow> jsval \<Rightarrow> request list \<Rightarrow> ledger \<Rightarrow> nat" where
  "accept_count env n [] db = 0"
| "accept_count env n (r # rs) db =
     (if presented_nonce env r = Some n \<and> fst (handle env r db) \<noteq> Inl NONCE_ALREADY_RECEIVED
      then 1 else 0)
     + accept_count env n rs (snd (handle env r db))"

section \<open>A concrete deployment\<close>

text \<open>
  One registered Tool with one ToolLink, a consumer at \<open>https://lms\<close>, and a JWT library
  that knows a handful of tokens. The theorems below are instantiated on it.
\<close>

definition demo_tool :: tool where
  "demo_tool = \<lparr> tool_authMethod = ''RSA_KEY'', tool_authKey = JStr ''pub'',
     tool_deploymentId = ''d1'', tool_redirectionURIs = [''https://tool/launch''],
     tool_scopes = [''MEMBERSHIPS''], tool_privacy = 4, tool_privateKey = JStr ''priv'',
     tool_name = ''Tool'', tool_customParameters = JObj [], tool_kid = ''k1'' \<rparr>"

definition demo_toolLink :: toolLink where
  "demo_toolLink = \<lparr> toolLink_url = ''https://tool/r1'', toolLink_privacy = 2,
     toolLink_customParameters = JObj [] \<rparr>"

definition demo_consumer :: consumer where
  "demo_consumer = \<lparr> consumer_url = ''https://lms'', consumer_protocol = JStr ''https:'',
     consumer_hostname = JStr ''lms'', consumer_port = JNull, consumer_auth = JNull,
     consumer_hash = JNull, consumer_accesstokenRoute = ''/accesstoken'',
     consumer_deepLinkingRequestRoute = ''/deeplinking'',
     consumer_membershipsRoute = ''/memberships'' \<rparr>"

definition demo_response_claims :: "(string \<times> jsval) list" where
  "demo_response_claims =
     [(''iss'', JStr ''c1''), (''aud'', JStr ''https://lms''),
      (''https://purl.imsglobal.org/spec/lti/claim/deployment_id'', JStr ''d1''),
      (''https://purl.imsglobal.org/spec/lti/claim/message_type'', JStr ''LtiDeepLinkingResponse''),
      (''https://purl.imsglobal.org/spec/lti/claim/version'', JStr ''1.3.0'')]"

definition demo_env :: env where
  "demo_env = \<lparr>
     jwt_verify = (\<lambda>token key options.
        if token = JStr ''hint'' \<and> key = JStr ''secret''
          then Some (JObj [(''toolLink'', JStr ''link1''), (''type'', JStr ''LtiResourceLinkRequest'')])
        else if token = JStr ''dl1'' \<and> key = JStr ''pub''
          then Some (JObj (demo_response_claims @ [(''nonce'', JStr ''n1'')]))
        else if token = JStr ''dl2'' \<and> key = JStr ''pub''
          then Some (JObj demo_response_claims)
        else if token = JStr ''at1'' \<and> key = JStr ''secret''
          then Some (JObj [(''clientId'', JStr ''c1''), (''scopes'', JStr ''lineitem'')])
        else if token = JStr ''at2'' \<and> key = JStr ''secret''
          then Some (JObj [(''clientId'', JStr ''c1''), (''scopes'', JStr ''memberships'')])
        else None),
     jwt_decode = (\<lambda>s.
        if s = ''dl1'' \<or> s = ''dl2''
          then JObj [(''header'', JObj [(''alg'', JStr ''RS256'')]),
                     (''payload'', JObj [(''iss'', JStr ''c1'')])]
        else if s = ''ca1''
          then JObj [(''header'', JObj [(''alg'', JStr ''RS256'')]),
                     (''payload'', JObj [(''sub'', JStr ''c1''),
                                        (''aud'', JArr [JStr ''https://lms/accesstoken''])])]
        else JNull),
     jwt_sign = (\<lambda>payload key options. Some ''signed''),
     got_get_json = (\<lambda>u. None),
     Jwk_export = (\<lambda>j. None),
     Jwk_jwk2pem = (\<lambda>j. None),
     Tool_getTool = (\<lambda>i. if i = JStr ''c1'' then Some demo_tool else None),
     ToolLink_getToolLink = (\<lambda>i. if i = JStr ''link1'' then Some demo_toolLink else None),
     url_format = (\<lambda>parts. ''https://lms'' @ js_toString (get_prop parts ''pathname'')),
     crypto_randomBytes_hex = ''00'',
     random_nonce = ''r1'',
     DEEPLINKING_LAUNCH = ''LtiDeepLinkingRequest'',
     DEEPLINKING_RESPONSE = ''LtiDeepLinkingResponse'',
     privacy_COMPLETE = 4,
     privacy_EMAIL = 2,
     privacy_NAME = 3,
     privacy_INHERIT = 0,
     validScopes = [(''MEMBERSHIPS'', ''memberships''), (''LINEITEM'', ''lineitem'')] \<rparr>"

text \<open>A login request that is complete but for \<open>lti_deployment_id\<close>.\<close>

definition demo_login :: jsval where
  "demo_login = JObj
     [(''lti_message_hint'', JStr ''hint''), (''nonce'', JStr ''n1''), (''scope'', JStr ''openid''),
      (''response_type'', JStr ''id_token''), (''response_mode'', JStr ''form_post''),
      (''prompt'', JStr ''none''), (''client_id'', JStr ''c1''),
      (''redirect_uri'', JStr ''https://tool/launch''), (''login_hint'', JStr ''u1'')]"

text \<open>A resource launch of \<open>link1\<close> and the identity data for it.\<close>

definition demo_serviceAction :: jsval where
  "demo_serviceAction = JObj
     [(''service'', JStr ''CORE''), (''clientId'', JStr ''c1''), (''deploymentId'', JStr ''d1''),
      (''params'', JObj [(''user'', JStr ''u1''), (''toolLink'', JStr ''link1''),
                        (''type'', JStr ''LtiResourceLinkRequest'')])]"

definition demo_idtoken :: jsval where
  "demo_idtoken = JObj
     [(''user'', JObj [(''email'', JStr ''u1@lms''), (''name'', JStr ''U One'')]),
      (''launch'', JObj [(''context'', JObj [(''id'', JStr ''ctx1'')])])]"

text \<open>Access-token requests: with a client assertion, and without one.\<close>

definition demo_grant :: "string \<Rightarrow> jsval" where
  "demo_grant scope = JObj
     [(''grant_type'', JStr ''client_credentials''),
      (''client_assertion_type'', JStr ''urn:ietf:params:oauth:client-assertion-type:jwt-bearer''),
      (''client_assertion'', JStr ''ca1''),
      (''scope'', JStr scope)]"

definition demo_grant_no_assertion :: jsval where
  "demo_grant_no_assertion = JObj
     [(''grant_type'', JStr ''client_credentials''),
      (''client_assertion_type'', JStr ''urn:ietf:params:oauth:client-assertion-type:jwt-bearer''),
      (''scope'', JStr ''memberships'')]"

section \<open>The nonce ledger\<close>

lemma login_serviceAction_not_replay:
  "login_serviceAction env obj messageHint \<noteq> Inl NONCE_ALREADY_RECEIVED"
  by (simp add: login_serviceAction_def Let_def split: option.split)

lemma deepLinking_serviceAction_not_replay:
  "deepLinking_serviceAction env tool verified query consumer \<noteq> Inl NONCE_ALREADY_RECEIVED"
  by (simp add: deepLinking_serviceAction_def)

lemma handle_first:
  assumes "presented_nonce env r = Some n" and "\<not> Database_get db n"
  shows "snd (handle env r db) = Database_insert db n"
    and "fst (handle env r db) \<noteq> Inl NONCE_ALREADY_RECEIVED"
  using assms
  by (cases r; auto simp: validateLoginRequest_def validateDeepLinkingRequest_def
        login_serviceAction_not_replay deepLinking_serviceAction_not_replay
        split: sum.splits if_splits prod.splits)+

lemma handle_later:
  assumes "presented_nonce env r = Some n" and "Database_get db n"
  shows "handle env r db = (Inl NONCE_ALREADY_RECEIVED, db)"
  using assms
  by (cases r; auto simp: validateLoginRequest_def validateDeepLinkingRequest_def
        split: sum.splits if_splits prod.splits)

lemma handle_keeps:
  "Database_get db n \<Longrightarrow> Database_get (snd (handle env r db)) n"
  by (cases r; auto simp: validateLoginRequest_def validateDeepLinkingRequest_def
        Database_get_def Database_insert_def
        split: sum.splits if_splits prod.splits)

lemma accept_count_bound:
  "accept_count env n rs db \<le> (if Database_get db n then 0 else 1)"
proof (induction rs arbitrary: db)
  case Nil
  show ?case by simp
next
  case (Cons r rs)
  let ?db' = "snd (handle env r db)"
  have IH: "accept_count env n rs ?db' \<le> (if Database_get ?db' n then 0 else 1)"
    by (rule Cons.IH)
  show ?case
  proof (cases "presented_nonce env r = Some n")
    case True
    show ?thesis
    proof (cases "Database_get db n")
      case True
      with \<open>presented_nonce env r = Some n\<close> have "handle env r db = (Inl NONCE_ALREADY_RECEIVED, db)"
        by (simp add: handle_later)
      with IH True show ?thesis by simp
    next
      case False
      with True have "?db' = Database_insert db n" by (simp add: handle_first)
      then have "Database_get ?db' n" by (simp add: Database_get_def Database_insert_def)
      with IH False show ?thesis by simp
    qed
  next
    case False
    show ?thesis
    proof (cases "Database_get db n")
      case True
      then have "Database_get ?db' n" by (rule handle_keeps)
      with IH False True show ?thesis by simp
    next
      case F: False
      with IH False show ?thesis by (simp split: if_splits)
    qed
  qed
qed

lemma demo_presented_login:
  "presented_nonce demo_env (LoginRequest demo_login (JStr ''secret'')) = Some (JStr ''n1'')"
  by (simp add: login_messageHint_def demo_env_def demo_login_def)

lemma demo_verified_dl1:
  "deepLinking_verified demo_env (JObj [(''JWT'', JStr ''dl1'')])
     = Inr (demo_tool, JObj (demo_response_claims @ [(''nonce'', JStr ''n1'')]))"
  by (simp add: deepLinking_verified_def jwt_decode_complete_def verifyToken_def
        jwt_verify_alg_def demo_env_def demo_tool_def)

lemma demo_verified_dl2:
  "deepLinking_verified demo_env (JObj [(''JWT'', JStr ''dl2'')])
     = Inr (demo_tool, JObj demo_response_claims)"
  by (simp add: deepLinking_verified_def jwt_decode_complete_def verifyToken_def
        jwt_verify_alg_def demo_env_def demo_tool_def)

lemma demo_presented_dl1:
  "presented_nonce demo_env (DeepLinkingResponse (JObj [(''JWT'', JStr ''dl1'')]) (JObj []) demo_consumer)
     = Some (JStr ''n1'')"
  by (simp add: demo_verified_dl1 demo_response_claims_def)

text \<open>
  C3. A request that presents the nonce \<open>n\<close> to the nonce check (a login request through
  \<open>validateLoginRequest\<close> or a deep-linking response through \<open>validateDeepLinkingRequest\<close>)
  records \<open>n\<close> and passes the check when \<open>n\<close> is not yet in the collection; when \<open>n\<close> is
  already there it fails with \<open>NONCE_ALREADY_RECEIVED\<close> and leaves the collection as it
  was. Hence in any sequence of requests handled one after the other, the requests that
  present \<open>n\<close> and are not turned away number at most one, and none when \<open>n\<close> was recorded
  before the sequence began. (A nonce is presented when the parameter is present in the
  code's sense, which excludes the empty string.)
\<close>

theorem nonce_accepted_once:
  "(presented_nonce env r = Some n \<and> \<not> Database_get db n \<longrightarrow>
      snd (handle env r db) = Database_insert db n
      \<and> fst (handle env r db) \<noteq> Inl NONCE_ALREADY_RECEIVED)
   \<and> (presented_nonce env r = Some n \<and> Database_get db n \<longrightarrow>
      handle env r db = (Inl NONCE_ALREADY_RECEIVED, db))
   \<and> accept_count env n rs db \<le> (if Database_get db n then 0 else 1)"
  using handle_first handle_later accept_count_bound by blast

theorem nonce_accepted_once_witness:
  "presented_nonce demo_env (LoginRequest demo_login (JStr ''secret'')) = Some (JStr ''n1'')
   \<and> \<not> Database_get [] (JStr ''n1'')
   \<and> snd (handle demo_env (LoginRequest demo_login (JStr ''secret'')) []) = [JStr ''n1'']
   \<and> fst (handle demo_env (LoginRequest demo_login (JStr ''secret'')) []) \<noteq> Inl NONCE_ALREADY_RECEIVED
   \<and> presented_nonce demo_env
        (DeepLinkingResponse (JObj [(''JWT'', JStr ''dl1'')]) (JObj []) demo_consumer) = Some (JStr ''n1'')
   \<and> Database_get [JStr ''n1''] (JStr ''n1'')
   \<and> handle demo_env (DeepLinkingResponse (JObj [(''JWT'', JStr ''dl1'')]) (JObj []) demo_consumer)
        [JStr ''n1''] = (Inl NONCE_ALREADY_RECEIVED, [JStr ''n1''])
   \<and> accept_count demo_env (JStr ''n1'')
        [LoginRequest demo_login (JStr ''secret''),
         DeepLinkingResponse (JObj [(''JWT'', JStr ''dl1'')]) (JObj []) demo_consumer,
         LoginRequest demo_login (JStr ''secret'')] [] \<le> 1"
proof -
  let ?login = "LoginRequest demo_login (JStr ''secret'')"
  let ?response = "DeepLinkingResponse (JObj [(''JWT'', JStr ''dl1'')]) (JObj []) demo_consumer"
  let ?n = "JStr ''n1''"
  note first = nonce_accepted_once [of demo_env ?login ?n "[]" "[?login, ?response, ?login]"]
  note later = nonce_accepted_once [of demo_env ?response ?n "[?n]" "[]"]
  have fresh: "\<not> Database_get [] ?n" by (simp add: Database_get_def)
  have seen: "Database_get [?n] ?n" by (simp add: Database_get_def)
  have ins: "Database_insert [] ?n = [?n]" by (simp add: Database_insert_def)
  from first demo_presented_login fresh
  have a: "snd (handle demo_env ?login []) = Database_insert [] ?n
           \<and> fst (handle demo_env ?login []) \<noteq> Inl NONCE_ALREADY_RECEIVED" by blast
  from first have "accept_count demo_env ?n [?login, ?response, ?login] []
           \<le> (if Database_get [] ?n then 0 else 1)" by blast
  with fresh have b: "accept_count demo_env ?n [?login, ?response, ?login] [] \<le> 1"
    by (simp only: if_False)
  from later demo_presented_dl1 seen
  have c: "handle demo_env ?response [?n] = (Inl NONCE_ALREADY_RECEIVED, [?n])" by blast
  from a b c demo_presented_login demo_presented_dl1 fresh seen ins show ?thesis
    by (simp only: simp_thms)
qed

section \<open>The order of the login checks\<close>

text \<open>
  C1, as stated, fails: the nonce is checked and stored before the deployment id is
  looked at. On the login request \<open>demo_login\<close>, which lacks \<open>lti_deployment_id\<close> and is
  well-formed otherwise, the call fails with the deployment-id error and has stored the
  nonce \<open>n1\<close> in the collection that was empty before.
\<close>

theorem login_missing_deployment_id_records_nonce:
  "validateLoginRequest demo_env demo_login (JStr ''secret'') []
     = (Inl MISSING_LTI_DEPLOYMENT_ID_CLAIM, [JStr ''n1''])
   \<and> get_prop demo_login ''lti_deployment_id'' = JUndefined
   \<and> snd (validateLoginRequest demo_env demo_login (JStr ''secret'') []) \<noteq> []"
  by (simp add: validateLoginRequest_def login_messageHint_def login_serviceAction_def
        demo_env_def demo_login_def Database_get_def Database_insert_def)

text \<open>
  C1, amended. A login request without \<open>lti_deployment_id\<close> whose earlier parameters are
  well-formed (the message hint verifies, the nonce is present and new, \<open>scope\<close>,
  \<open>response_type\<close>, \<open>response_mode\<close> and \<open>prompt\<close> have their fixed values, \<open>client_id\<close> names
  a registered Tool) fails with \<open>MISSING_LTI_DEPLOYMENT_ID_CLAIM\<close>, whatever its
  \<open>redirect_uri\<close> and \<open>login_hint\<close> are; the failed call has recorded the request's nonce,
  and that is its only change to the nonce collection.
\<close>

theorem login_missing_deployment_id:
  assumes "login_messageHint env obj encryptionkey = Inr messageHint"
    and "truthy (get_prop obj ''nonce'')"
    and "\<not> Database_get db (get_prop obj ''nonce'')"
    and "get_prop obj ''scope'' = JStr ''openid''"
    and "get_prop obj ''response_type'' = JStr ''id_token''"
    and "get_prop obj ''response_mode'' = JStr ''form_post''"
    and "get_prop obj ''prompt'' = JStr ''none''"
    and "truthy (get_prop obj ''client_id'')"
    and "Tool_getTool env (get_prop obj ''client_id'') = Some tool"
    and "\<not> truthy (get_prop obj ''lti_deployment_id'')"
  shows "validateLoginRequest env obj encryptionkey db
           = (Inl MISSING_LTI_DEPLOYMENT_ID_CLAIM, Database_insert db (get_prop obj ''nonce''))"
  using assms by (simp add: validateLoginRequest_def login_serviceAction_def)

theorem login_missing_deployment_id_witness:
  "login_messageHint demo_env demo_login (JStr ''secret'')
      = Inr (JObj [(''toolLink'', JStr ''link1''), (''type'', JStr ''LtiResourceLinkRequest'')])
   \<and> get_prop demo_login ''nonce'' = JStr ''n1''
   \<and> \<not> Database_get [JStr ''n0''] (JStr ''n1'')
   \<and> Tool_getTool demo_env (get_prop demo_login ''client_id'') = Some demo_tool
   \<and> \<not> truthy (get_prop demo_login ''lti_deployment_id'')
   \<and> validateLoginRequest demo_env demo_login (JStr ''secret'') [JStr ''n0'']
       = (Inl MISSING_LTI_DEPLOYMENT_ID_CLAIM, [JStr ''n0'', JStr ''n1''])"
proof -
  have h1: "login_messageHint demo_env demo_login (JStr ''secret'')
      = Inr (JObj [(''toolLink'', JStr ''link1''), (''type'', JStr ''LtiResourceLinkRequest'')])"
    by (simp add: login_messageHint_def demo_env_def demo_login_def)
  have h2: "truthy (get_prop demo_login ''nonce'')" by (simp add: demo_login_def)
  have h3: "\<not> Database_get [JStr ''n0''] (get_prop demo_login ''nonce'')"
    by (simp add: demo_login_def Database_get_def)
  have h4: "get_prop demo_login ''scope'' = JStr ''openid''" by (simp add: demo_login_def)
  have h5: "get_prop demo_login ''response_type'' = JStr ''id_token''" by (simp add: demo_login_def)
  have h6: "get_prop demo_login ''response_mode'' = JStr ''form_post''" by (simp add: demo_login_def)
  have h7: "get_prop demo_login ''prompt'' = JStr ''none''" by (simp add: demo_login_def)
  have h8: "truthy (get_prop demo_login ''client_id'')" by (simp add: demo_login_def)
  have h9: "Tool_getTool demo_env (get_prop demo_login ''client_id'') = Some demo_tool"
    by (simp add: demo_login_def demo_env_def)
  have h10: "\<not> truthy (get_prop demo_login ''lti_deployment_id'')" by (simp add: demo_login_def)
  have n: "get_prop demo_login ''nonce'' = JStr ''n1''" by (simp add: demo_login_def)
  from login_missing_deployment_id [OF h1 h2 h3 h4 h5 h6 h7 h8 h9 h10]
  show ?thesis using h1 h3 h9 h10 n by (simp add: Database_insert_def)
qed

section \<open>Deep-linking responses without a nonce\<close>

lemma run_replicate:
  assumes "\<And>db. handle env r db = (res, db)"
  shows "run env (replicate k r) db = (replicate k res, db)"
  by (induction k) (simp_all add: assms)

text \<open>
  C10. When the signature of a deep-linking response verifies and the verified claims have
  no \<open>nonce\<close>, \<open>validateDeepLinkingRequest\<close> does not consult the nonce collection and
  leaves it unchanged: its result is that of the remaining checks alone. So the same
  response submitted \<open>k\<close> times in a row gets the same result each time, a successful
  validation included, for every \<open>k\<close>.
\<close>

theorem deepLinking_without_nonce_replayable:
  assumes "deepLinking_verified env obj = Inr (tool, verified)"
    and "get_prop verified ''nonce'' = JUndefined"
  shows "validateDeepLinkingRequest env obj query consumer db
           = (deepLinking_serviceAction env tool verified query consumer, db)
         \<and> run env (replicate k (DeepLinkingResponse obj query consumer)) db
           = (replicate k (deepLinking_serviceAction env tool verified query consumer), db)"
proof -
  have one: "handle env (DeepLinkingResponse obj query consumer) db'
               = (deepLinking_serviceAction env tool verified query consumer, db')" for db'
    using assms by (simp add: validateDeepLinkingRequest_def)
  show ?thesis using one [of db] run_replicate [of env _ _ k db, OF one] by simp
qed

theorem deepLinking_without_nonce_replayable_witness:
  "deepLinking_verified demo_env (JObj [(''JWT'', JStr ''dl2'')]) = Inr (demo_tool, JObj demo_response_claims)
   \<and> get_prop (JObj demo_response_claims) ''nonce'' = JUndefined
   \<and> isl (deepLinking_serviceAction demo_env demo_tool (JObj demo_response_claims) (JObj []) demo_consumer) = False
   \<and> run demo_env (replicate 3 (DeepLinkingResponse (JObj [(''JWT'', JStr ''dl2'')]) (JObj []) demo_consumer)) []
       = (replicate 3 (deepLinking_serviceAction demo_env demo_tool (JObj demo_response_claims) (JObj [])
            demo_consumer), [])"
proof -
  have h2: "get_prop (JObj demo_response_claims) ''nonce'' = JUndefined"
    by (simp add: demo_response_claims_def)
  have ok: "isl (deepLinking_serviceAction demo_env demo_tool (JObj demo_response_claims) (JObj [])
        demo_consumer) = False"
    by (simp add: deepLinking_serviceAction_def demo_response_claims_def demo_env_def
          demo_tool_def demo_consumer_def)
  from deepLinking_without_nonce_replayable [OF demo_verified_dl2 h2, of "JObj []" demo_consumer "[]" 3]
  show ?thesis using demo_verified_dl2 h2 ok by simp
qed

section \<open>The audience of a client assertion\<close>

lemma demo_decode_ca1:
  "jwt_decode_complete demo_env (JStr ''ca1'')
     = JObj [(''header'', JObj [(''alg'', JStr ''RS256'')]),
             (''payload'', JObj [(''sub'', JStr ''c1''),
                                (''aud'', JArr [JStr ''https://lms/accesstoken''])])]"
  by (simp add: jwt_decode_complete_def demo_env_def)

text \<open>
  C4 (the code departs from the claim). In \<open>generateAccessToken\<close> the test for an array
  audience is followed by \<^verbatim>\<open>else if (aud !== accesstokenURL)\<close>, and that branch is also
  taken by an array that contains the URL: an array is never identical to a string. So
  when the checks before the audience check pass and the audience of the decoded
  assertion is an array, whatever it contains, issuance fails with \<open>INVALID_AUD_CLAIM\<close>.
\<close>

theorem generateAccessToken_rejects_audience_array:
  assumes "\<not> nullish body"
    and "get_prop body ''grant_type'' = JStr ''client_credentials''"
    and "get_prop body ''client_assertion_type''
           = JStr ''urn:ietf:params:oauth:client-assertion-type:jwt-bearer''"
    and "truthy (get_prop body ''client_assertion'')"
    and "jwt_decode_complete env (get_prop body ''client_assertion'') = decoded"
    and "\<not> nullish decoded" and "\<not> nullish (get_prop decoded ''payload'')"
    and "Tool_getTool env (get_prop (get_prop decoded ''payload'') ''sub'') = Some tool"
    and "get_prop body ''scope'' = JStr s" and "s \<noteq> []"
    and "check_scopes env (tool_scopes tool) (js_split s) = None"
    and "get_prop (get_prop decoded ''payload'') ''aud'' = JArr auds"
  shows "generateAccessToken env body consumer encryptionkey = Inl INVALID_AUD_CLAIM"
  using assms by (simp add: generateAccessToken_def Let_def)

theorem generateAccessToken_rejects_audience_array_witness:
  "url_format demo_env (JObj (consumer_url_parts demo_consumer @
       [(''pathname'', JStr (consumer_accesstokenRoute demo_consumer))])) = ''https://lms/accesstoken''
   \<and> get_prop (get_prop (jwt_decode_complete demo_env (get_prop (demo_grant ''memberships'') ''client_assertion''))
        ''payload'') ''aud'' = JArr [JStr ''https://lms/accesstoken'']
   \<and> check_scopes demo_env (tool_scopes demo_tool) (js_split ''memberships'') = None
   \<and> generateAccessToken demo_env (demo_grant ''memberships'') demo_consumer (JStr ''secret'')
       = Inl INVALID_AUD_CLAIM"
proof -
  let ?body = "demo_grant ''memberships''"
  let ?decoded = "JObj [(''header'', JObj [(''alg'', JStr ''RS256'')]),
             (''payload'', JObj [(''sub'', JStr ''c1''),
                                (''aud'', JArr [JStr ''https://lms/accesstoken''])])]"
  have u: "url_format demo_env (JObj (consumer_url_parts demo_consumer @
       [(''pathname'', JStr (consumer_accesstokenRoute demo_consumer))])) = ''https://lms/accesstoken''"
    by (simp add: demo_env_def demo_consumer_def consumer_url_parts_def)
  have h1: "\<not> nullish ?body" by (simp add: demo_grant_def)
  have h2: "get_prop ?body ''grant_type'' = JStr ''client_credentials''" by (simp add: demo_grant_def)
  have h3: "get_prop ?body ''client_assertion_type''
           = JStr ''urn:ietf:params:oauth:client-assertion-type:jwt-bearer''" by (simp add: demo_grant_def)
  have h4: "truthy (get_prop ?body ''client_assertion'')" by (simp add: demo_grant_def)
  have h5: "jwt_decode_complete demo_env (get_prop ?body ''client_assertion'') = ?decoded"
    using demo_decode_ca1 by (simp add: demo_grant_def)
  have h6: "\<not> nullish ?decoded" by simp
  have h7: "\<not> nullish (get_prop ?decoded ''payload'')" by simp
  have h8: "Tool_getTool demo_env (get_prop (get_prop ?decoded ''payload'') ''sub'') = Some demo_tool"
    by (simp add: demo_env_def)
  have h9: "get_prop ?body ''scope'' = JStr ''memberships''" by (simp add: demo_grant_def)
  have h10: "''memberships'' \<noteq> []" by simp
  have h11: "check_scopes demo_env (tool_scopes demo_tool) (js_split ''memberships'') = None"
    by (simp add: scope_authorized_def getScopeCode_def demo_env_def demo_tool_def)
  have h12: "get_prop (get_prop ?decoded ''payload'') ''aud'' = JArr [JStr ''https://lms/accesstoken'']"
    by simp
  from generateAccessToken_rejects_audience_array [OF h1 h2 h3 h4 h5 h6 h7 h8 h9 h10 h11 h12,
         of demo_consumer "JStr ''secret''"]
  show ?thesis using u h5 h11 h12 by (simp only: simp_thms)
qed

section \<open>Privacy levels in the ID Token\<close>

lemma map_of_set_prop [simp]:
  "map_of (entries (set_prop (JObj kvs) k v)) = (map_of kvs)(k \<mapsto> v)"
  by (simp add: update_conv')

lemma privacy_claims_JObj:
  "\<exists>kvs'. privacy_claims env p user (JObj kvs) = JObj kvs'
     \<and> map_of kvs' ''email'' =
         (if p = privacy_COMPLETE env \<or> p = privacy_EMAIL env
          then Some (get_prop user ''email'') else map_of kvs ''email'')
     \<and> map_of kvs' ''given_name'' =
         (if p = privacy_COMPLETE env \<or> p = privacy_NAME env
          then Some (get_prop user ''given_name'') else map_of kvs ''given_name'')
     \<and> map_of kvs' ''family_name'' =
         (if p = privacy_COMPLETE env \<or> p = privacy_NAME env
          then Some (get_prop user ''family_name'') else map_of kvs ''family_name'')
     \<and> map_of kvs' ''name'' =
         (if p = privacy_COMPLETE env \<or> p = privacy_NAME env
          then Some (get_prop user ''name'') else map_of kvs ''name'')"
  by (simp add: privacy_claims_def Let_def update_conv')

text \<open>
  C5. For a resource launch (a launch intent whose type is not the deep-linking one) of a
  registered Tool and an existing ToolLink, with identity data that has a user and a
  launch context, \<open>buildIdToken\<close> signs claims in which the personal claims follow the
  effective privacy level: the ToolLink's own level, or the Tool's when the ToolLink's
  is \<open>INHERIT\<close>. Under \<open>EMAIL\<close> the claims have \<open>email\<close>, set to the user's email, and
  have none of \<open>given_name\<close>, \<open>family_name\<close>, \<open>name\<close>; under \<open>NAME\<close> they have these three,
  set to the user's, and no \<open>email\<close>; under \<open>COMPLETE\<close> they have all four. The three levels
  are taken to be different numbers.
\<close>

theorem buildIdToken_resource_privacy:
  assumes "truthy serviceAction" and "truthy idtoken_in"
    and "Tool_getTool env (get_prop serviceAction ''clientId'') = Some tool"
    and "\<not> nullish (get_prop serviceAction ''params'')"
    and "\<not> nullish (get_prop idtoken_in ''user'')"
    and "\<not> nullish (get_prop idtoken_in ''launch'')"
    and "\<not> nullish (get_prop (get_prop idtoken_in ''launch'') ''context'')"
    and "get_prop (get_prop serviceAction ''params'') ''type'' \<noteq> JStr (DEEPLINKING_LAUNCH env)"
    and "ToolLink_getToolLink env (get_prop (get_prop serviceAction ''params'') ''toolLink'') = Some toolLink"
    and "distinct [privacy_COMPLETE env, privacy_EMAIL env, privacy_NAME env]"
    and "privacy = (if toolLink_privacy toolLink = privacy_INHERIT env then tool_privacy tool
                    else toolLink_privacy toolLink)"
    and "user = get_prop idtoken_in ''user''"
  shows "\<exists>idtoken claim.
           buildIdToken_claims env serviceAction idtoken_in consumer = Inr (tool, idtoken)
         \<and> buildIdToken env serviceAction idtoken_in consumer =
             (case jwt_sign env idtoken (tool_privateKey tool)
                     (JObj [(''algorithm'', JStr ''RS256''), (''expiresIn'', JStr ''24h''),
                            (''keyid'', JStr (tool_kid tool))]) of
                None \<Rightarrow> Inl LibraryError | Some token \<Rightarrow> Inr token)
         \<and> claim = map_of (entries idtoken)
         \<and> (privacy = privacy_EMAIL env \<longrightarrow>
              claim ''email'' = Some (get_prop user ''email'') \<and> claim ''given_name'' = None
              \<and> claim ''family_name'' = None \<and> claim ''name'' = None)
         \<and> (privacy = privacy_NAME env \<longrightarrow>
              claim ''email'' = None \<and> claim ''given_name'' = Some (get_prop user ''given_name'')
              \<and> claim ''family_name'' = Some (get_prop user ''family_name'')
              \<and> claim ''name'' = Some (get_prop user ''name''))
         \<and> (privacy = privacy_COMPLETE env \<longrightarrow>
              claim ''email'' = Some (get_prop user ''email'')
              \<and> claim ''given_name'' = Some (get_prop user ''given_name'')
              \<and> claim ''family_name'' = Some (get_prop user ''family_name'')
              \<and> claim ''name'' = Some (get_prop user ''name''))"
proof -
  define prms where "prms = get_prop serviceAction ''params''"
  define launch where "launch = get_prop idtoken_in ''launch''"
  define ctx where "ctx = get_prop launch ''context''"
  define base where "base =
     [(''iss'', JStr (consumer_url consumer)),
      (''aud'', get_prop serviceAction ''clientId''),
      (''https://purl.imsglobal.org/spec/lti/claim/deployment_id'',
         get_prop serviceAction ''deploymentId''),
      (''sub'', get_prop prms ''user''),
      (''https://purl.imsglobal.org/spec/lti/claim/roles'', get_prop user ''roles''),
      (''https://purl.imsglobal.org/spec/lti/claim/context'', JObj
         [(''id'', get_prop ctx ''id''),
          (''label'', get_prop ctx ''label''),
          (''title'', get_prop ctx ''title''),
          (''type'', get_prop ctx ''type'')]),
      (''https://purl.imsglobal.org/spec/lti/claim/version'', JStr ''1.3.0''),
      (''nonce'', JStr (random_nonce env)),
      (''https://purl.imsglobal.org/spec/lti/claim/message_type'', get_prop prms ''type''),
      (''https://purl.imsglobal.org/spec/lti/claim/custom'',
         spread (tool_customParameters tool) (toolLink_customParameters toolLink)),
      (''https://purl.imsglobal.org/spec/lti/claim/target_link_uri'', JStr (toolLink_url toolLink)),
      (''https://purl.imsglobal.org/spec/lti/claim/resource_link'', get_prop launch ''resource'')]"
  define extra where "extra = JObj
     [(''context_memberships_url'', JStr (url_format env (JObj (consumer_url_parts consumer @
          [(''pathname'', JStr (consumer_membershipsRoute consumer @ ''/'' @
                                 js_toString (get_prop ctx ''id'')))])))),
      (''service_versions'', JArr [JStr ''2.0''])]"
  have base_none: "map_of base ''email'' = None" "map_of base ''given_name'' = None"
      "map_of base ''family_name'' = None" "map_of base ''name'' = None"
    by (simp_all add: base_def)
  from privacy_claims_JObj [of env privacy user base]
  obtain kvs where k: "privacy_claims env privacy user (JObj base) = JObj kvs"
    and e: "map_of kvs ''email'' =
         (if privacy = privacy_COMPLETE env \<or> privacy = privacy_EMAIL env
          then Some (get_prop user ''email'') else None)"
    and g: "map_of kvs ''given_name'' =
         (if privacy = privacy_COMPLETE env \<or> privacy = privacy_NAME env
          then Some (get_prop user ''given_name'') else None)"
    and f: "map_of kvs ''family_name'' =
         (if privacy = privacy_COMPLETE env \<or> privacy = privacy_NAME env
          then Some (get_prop user ''family_name'') else None)"
    and n: "map_of kvs ''name'' =
         (if privacy = privacy_COMPLETE env \<or> privacy = privacy_NAME env
          then Some (get_prop user ''name'') else None)"
    unfolding base_none by blast
  define idtoken where "idtoken = (if ''MEMBERSHIPS'' \<in> set (tool_scopes tool)
        then set_prop (JObj kvs) ''https://purl.imsglobal.org/spec/lti-nrps/claim/namesroleservice'' extra
        else JObj kvs)"
  have step: "buildIdToken_claims env serviceAction idtoken_in consumer =
     Inr (tool, if ''MEMBERSHIPS'' \<in> set (tool_scopes tool)
        then set_prop (privacy_claims env privacy user (JObj base))
               ''https://purl.imsglobal.org/spec/lti-nrps/claim/namesroleservice'' extra
        else privacy_claims env privacy user (JObj base))"
    using assms(1-9)
    by (simp add: buildIdToken_claims_def Let_def base_def extra_def prms_def launch_def
          ctx_def assms(11,12))
  have b: "buildIdToken_claims env serviceAction idtoken_in consumer = Inr (tool, idtoken)"
    unfolding step k idtoken_def by simp
  have s: "buildIdToken env serviceAction idtoken_in consumer =
             (case jwt_sign env idtoken (tool_privateKey tool)
                     (JObj [(''algorithm'', JStr ''RS256''), (''expiresIn'', JStr ''24h''),
                            (''keyid'', JStr (tool_kid tool))]) of
                None \<Rightarrow> Inl LibraryError | Some token \<Rightarrow> Inr token)"
    by (simp add: buildIdToken_def b)
  have m: "map_of (entries idtoken) ''email'' = map_of kvs ''email''"
      "map_of (entries idtoken) ''given_name'' = map_of kvs ''given_name''"
      "map_of (entries idtoken) ''family_name'' = map_of kvs ''family_name''"
      "map_of (entries idtoken) ''name'' = map_of kvs ''name''"
    by (simp_all add: idtoken_def update_conv')
  from assms(10) have d: "privacy_COMPLETE env \<noteq> privacy_EMAIL env"
      "privacy_COMPLETE env \<noteq> privacy_NAME env" "privacy_EMAIL env \<noteq> privacy_NAME env"
    by simp_all
  show ?thesis
    using b s m e g f n d by (intro exI [of _ idtoken] exI [of _ "map_of (entries idtoken)"]) auto
qed

theorem buildIdToken_resource_privacy_witness:
  "get_prop (get_prop demo_serviceAction ''params'') ''type'' \<noteq> JStr (DEEPLINKING_LAUNCH demo_env)
   \<and> ToolLink_getToolLink demo_env (get_prop (get_prop demo_serviceAction ''params'') ''toolLink'')
        = Some demo_toolLink
   \<and> toolLink_privacy demo_toolLink \<noteq> privacy_INHERIT demo_env
   \<and> toolLink_privacy demo_toolLink = privacy_EMAIL demo_env
   \<and> tool_privacy demo_tool = privacy_COMPLETE demo_env
   \<and> (\<exists>idtoken.
         buildIdToken_claims demo_env demo_serviceAction demo_idtoken demo_consumer
           = Inr (demo_tool, idtoken)
       \<and> map_of (entries idtoken) ''email'' = Some (JStr ''u1@lms'')
       \<and> map_of (entries idtoken) ''given_name'' = None
       \<and> map_of (entries idtoken) ''family_name'' = None
       \<and> map_of (entries idtoken) ''name'' = None)"
proof -
  have h1: "truthy demo_serviceAction" by (simp add: demo_serviceAction_def)
  have h2: "truthy demo_idtoken" by (simp add: demo_idtoken_def)
  have h3: "Tool_getTool demo_env (get_prop demo_serviceAction ''clientId'') = Some demo_tool"
    by (simp add: demo_serviceAction_def demo_env_def)
  have h4: "\<not> nullish (get_prop demo_serviceAction ''params'')" by (simp add: demo_serviceAction_def)
  have h5: "\<not> nullish (get_prop demo_idtoken ''user'')" by (simp add: demo_idtoken_def)
  have h6: "\<not> nullish (get_prop demo_idtoken ''launch'')" by (simp add: demo_idtoken_def)
  have h7: "\<not> nullish (get_prop (get_prop demo_idtoken ''launch'') ''context'')"
    by (simp add: demo_idtoken_def)
  have h8: "get_prop (get_prop demo_serviceAction ''params'') ''type'' \<noteq> JStr (DEEPLINKING_LAUNCH demo_env)"
    by (simp add: demo_serviceAction_def demo_env_def)
  have h9: "ToolLink_getToolLink demo_env (get_prop (get_prop demo_serviceAction ''params'') ''toolLink'')
        = Some demo_toolLink"
    by (simp add: demo_serviceAction_def demo_env_def)
  have h10: "distinct [privacy_COMPLETE demo_env, privacy_EMAIL demo_env, privacy_NAME demo_env]"
    by (simp add: demo_env_def)
  have p1: "toolLink_privacy demo_toolLink \<noteq> privacy_INHERIT demo_env"
    by (simp add: demo_toolLink_def demo_env_def)
  have p2: "toolLink_privacy demo_toolLink = privacy_EMAIL demo_env"
    by (simp add: demo_toolLink_def demo_env_def)
  have p3: "tool_privacy demo_tool = privacy_COMPLETE demo_env"
    by (simp add: demo_tool_def demo_env_def)
  have h11: "privacy_EMAIL demo_env =
      (if toolLink_privacy demo_toolLink = privacy_INHERIT demo_env then tool_privacy demo_tool
       else toolLink_privacy demo_toolLink)"
    using p1 p2 by simp
  have h12: "JObj [(''email'', JStr ''u1@lms''), (''name'', JStr ''U One'')] = get_prop demo_idtoken ''user''"
    by (simp add: demo_idtoken_def)
  from buildIdToken_resource_privacy [OF h1 h2 h3 h4 h5 h6 h7 h8 h9 h10 h11 h12, of demo_consumer]
  obtain idtoken where "buildIdToken_claims demo_env demo_serviceAction demo_idtoken demo_consumer
           = Inr (demo_tool, idtoken)
       \<and> map_of (entries idtoken) ''email''
           = Some (get_prop (JObj [(''email'', JStr ''u1@lms''), (''name'', JStr ''U One'')]) ''email'')
       \<and> map_of (entries idtoken) ''given_name'' = None
       \<and> map_of (entries idtoken) ''family_name'' = None
       \<and> map_of (entries idtoken) ''name'' = None"
    by blast
  then have "\<exists>idtoken.
         buildIdToken_claims demo_env demo_serviceAction demo_idtoken demo_consumer
           = Inr (demo_tool, idtoken)
       \<and> map_of (entries idtoken) ''email'' = Some (JStr ''u1@lms'')
       \<and> map_of (entries idtoken) ''given_name'' = None
       \<and> map_of (entries idtoken) ''family_name'' = None
       \<and> map_of (entries idtoken) ''name'' = None"
    by auto
  with h8 h9 p1 p2 p3 show ?thesis by (simp only: simp_thms)
qed

section \<open>Requested scopes\<close>

lemma check_scopes_first:
  assumes "\<forall>g \<in> set good. scope_authorized env toolScopes g"
    and "\<not> scope_authorized env toolScopes bad"
  shows "check_scopes env toolScopes (good @ bad # rest) = Some (INVALID_SCOPE_CLAIM_Details bad)"
  using assms by (induction good) auto

lemma not_scope_authorized_iff:
  "\<not> scope_authorized env toolScopes scope \<longleftrightarrow>
     getScopeCode env scope = None \<or> getScopeCode env scope = Some []
     \<or> (\<exists>code. getScopeCode env scope = Some code \<and> code \<notin> set toolScopes)"
  by (auto simp: scope_authorized_def split: option.splits)

lemma demo_split: "js_split ''memberships unknown_scope'' = [''memberships'', ''unknown_scope'']"
  by simp

text \<open>
  C6. In \<open>generateAccessToken\<close>, once the grant type, the assertion type and the Tool of
  the decoded assertion are accepted and \<open>scope\<close> is present: if one of the space-separated
  values of \<open>scope\<close> maps to no scope code, or to a code the Tool is not authorized for,
  issuance fails with the \<open>INVALID_SCOPE_CLAIM\<close> error that names an offending value (the
  first one, all values before it being authorized), and so no access token is issued.
  A grant for \<open>memberships unknown_scope\<close> to a Tool authorized for memberships only fails
  naming \<open>unknown_scope\<close>.
\<close>

theorem generateAccessToken_unauthorized_scope:
  assumes "\<not> nullish body"
    and "get_prop body ''grant_type'' = JStr ''client_credentials''"
    and "get_prop body ''client_assertion_type''
           = JStr ''urn:ietf:params:oauth:client-assertion-type:jwt-bearer''"
    and "jwt_decode_complete env (get_prop body ''client_assertion'') = decoded"
    and "\<not> nullish decoded" and "\<not> nullish (get_prop decoded ''payload'')"
    and "Tool_getTool env (get_prop (get_prop decoded ''payload'') ''sub'') = Some tool"
    and "get_prop body ''scope'' = JStr s" and "s \<noteq> []"
    and "\<exists>scope \<in> set (js_split s).
           getScopeCode env scope = None
           \<or> (\<exists>code. getScopeCode env scope = Some code \<and> code \<notin> set (tool_scopes tool))"
  shows "\<exists>good bad rest.
           js_split s = good @ bad # rest
           \<and> (\<forall>g \<in> set good. scope_authorized env (tool_scopes tool) g)
           \<and> \<not> scope_authorized env (tool_scopes tool) bad
           \<and> generateAccessToken env body consumer encryptionkey
               = Inl (INVALID_SCOPE_CLAIM_Details bad)"
proof -
  from assms(10) have "\<exists>scope \<in> set (js_split s). \<not> scope_authorized env (tool_scopes tool) scope"
    by (auto simp: not_scope_authorized_iff)
  then obtain good bad rest where sp: "js_split s = good @ bad # rest"
    and bad: "\<not> scope_authorized env (tool_scopes tool) bad"
    and good: "\<forall>g \<in> set good. \<not> \<not> scope_authorized env (tool_scopes tool) g"
    using split_list_first_prop [of "js_split s" "\<lambda>x. \<not> scope_authorized env (tool_scopes tool) x"]
    by blast
  from good have good': "\<forall>g \<in> set good. scope_authorized env (tool_scopes tool) g" by simp
  have "check_scopes env (tool_scopes tool) (js_split s) = Some (INVALID_SCOPE_CLAIM_Details bad)"
    unfolding sp using good' bad by (rule check_scopes_first)
  with assms(1-9) have "generateAccessToken env body consumer encryptionkey
               = Inl (INVALID_SCOPE_CLAIM_Details bad)"
    by (simp add: generateAccessToken_def Let_def)
  with sp good' bad show ?thesis by blast
qed

theorem generateAccessToken_unauthorized_scope_witness:
  "get_prop (demo_grant ''memberships unknown_scope'') ''scope'' = JStr ''memberships unknown_scope''
   \<and> js_split ''memberships unknown_scope'' = [''memberships'', ''unknown_scope'']
   \<and> tool_scopes demo_tool = [''MEMBERSHIPS'']
   \<and> getScopeCode demo_env ''memberships'' = Some ''MEMBERSHIPS''
   \<and> getScopeCode demo_env ''unknown_scope'' = None
   \<and> generateAccessToken demo_env (demo_grant ''memberships unknown_scope'') demo_consumer (JStr ''secret'')
       = Inl (INVALID_SCOPE_CLAIM_Details ''unknown_scope'')"
proof -
  let ?body = "demo_grant ''memberships unknown_scope''"
  let ?decoded = "JObj [(''header'', JObj [(''alg'', JStr ''RS256'')]),
             (''payload'', JObj [(''sub'', JStr ''c1''),
                                (''aud'', JArr [JStr ''https://lms/accesstoken''])])]"
  have h1: "\<not> nullish ?body" by (simp add: demo_grant_def)
  have h2: "get_prop ?body ''grant_type'' = JStr ''client_credentials''" by (simp add: demo_grant_def)
  have h3: "get_prop ?body ''client_assertion_type''
           = JStr ''urn:ietf:params:oauth:client-assertion-type:jwt-bearer''" by (simp add: demo_grant_def)
  have h4: "jwt_decode_complete demo_env (get_prop ?body ''client_assertion'') = ?decoded"
    using demo_decode_ca1 by (simp add: demo_grant_def)
  have h5: "\<not> nullish ?decoded" by simp
  have h6: "\<not> nullish (get_prop ?decoded ''payload'')" by simp
  have h7: "Tool_getTool demo_env (get_prop (get_prop ?decoded ''payload'') ''sub'') = Some demo_tool"
    by (simp add: demo_env_def)
  have h8: "get_prop ?body ''scope'' = JStr ''memberships unknown_scope''" by (simp add: demo_grant_def)
  have h9: "''memberships unknown_scope'' \<noteq> []" by simp
  have c1: "getScopeCode demo_env ''memberships'' = Some ''MEMBERSHIPS''"
    by (simp add: getScopeCode_def demo_env_def)
  have c2: "getScopeCode demo_env ''unknown_scope'' = None"
    by (simp add: getScopeCode_def demo_env_def)
  have ts: "tool_scopes demo_tool = [''MEMBERSHIPS'']" by (simp add: demo_tool_def)
  have h10: "\<exists>scope \<in> set (js_split ''memberships unknown_scope'').
           getScopeCode demo_env scope = None
           \<or> (\<exists>code. getScopeCode demo_env scope = Some code \<and> code \<notin> set (tool_scopes demo_tool))"
    unfolding demo_split using c2 by simp
  from generateAccessToken_unauthorized_scope [OF h1 h2 h3 h4 h5 h6 h7 h8 h9 h10, of demo_consumer "JStr ''secret''"]
  obtain good bad rest where sp: "js_split ''memberships unknown_scope'' = good @ bad # rest"
    and g: "\<forall>g \<in> set good. scope_authorized demo_env (tool_scopes demo_tool) g"
    and b: "\<not> scope_authorized demo_env (tool_scopes demo_tool) bad"
    and r: "generateAccessToken demo_env ?body demo_consumer (JStr ''secret'')
               = Inl (INVALID_SCOPE_CLAIM_Details bad)" by blast
  have m: "scope_authorized demo_env (tool_scopes demo_tool) ''memberships''"
    by (simp add: scope_authorized_def c1 ts)
  from sp have "bad \<in> set [''memberships'', ''unknown_scope'']"
    unfolding demo_split [symmetric] by simp
  with b m have "bad = ''unknown_scope''" by auto
  with r h8 c1 c2 ts demo_split show ?thesis by (simp only: simp_thms)
qed

section \<open>Scopes of an access token\<close>

text \<open>
  C7. When the access token verifies under the consumer's key and carries the granted
  scopes \<open>granted\<close>, a required scope that is not one of them makes
  \<open>Auth.validateAccessToken\<close> fail with the \<open>INVALID_SCOPE_CLAIM\<close> error for that scope,
  whatever the Tool registry holds, so also when the Tool is authorized for the scope.
  When the function succeeds, its result is the verified payload with the current privacy
  level of the token's Tool stored under \<open>privacy\<close>.
\<close>

theorem validateAccessToken_scope_of_token:
  "(jwt_verify env token encryptionkey JUndefined = Some verified
      \<and> get_prop verified ''scopes'' = JStr granted \<and> scope \<notin> set (js_split granted)
     \<longrightarrow> Auth_validateAccessToken env token scope encryptionkey
           = Inl (INVALID_SCOPE_CLAIM_Details scope))
   \<and> (Auth_validateAccessToken env token scope encryptionkey = Inr context
     \<longrightarrow> (\<exists>verified tool.
            jwt_verify env token encryptionkey JUndefined = Some verified
            \<and> Tool_getTool env (get_prop verified ''clientId'') = Some tool
            \<and> context = set_prop verified ''privacy'' (JNum (tool_privacy tool))))"
  by (auto simp: Auth_validateAccessToken_def split: option.splits jsval.splits if_splits)

theorem validateAccessToken_scope_of_token_witness:
  "jwt_verify demo_env (JStr ''at1'') (JStr ''secret'') JUndefined
      = Some (JObj [(''clientId'', JStr ''c1''), (''scopes'', JStr ''lineitem'')])
   \<and> ''memberships'' \<notin> set (js_split ''lineitem'')
   \<and> scope_authorized demo_env (tool_scopes demo_tool) ''memberships''
   \<and> Auth_validateAccessToken demo_env (JStr ''at1'') ''memberships'' (JStr ''secret'')
       = Inl (INVALID_SCOPE_CLAIM_Details ''memberships'')
   \<and> Auth_validateAccessToken demo_env (JStr ''at2'') ''memberships'' (JStr ''secret'')
       = Inr (JObj [(''clientId'', JStr ''c1''), (''scopes'', JStr ''memberships''),
                    (''privacy'', JNum (tool_privacy demo_tool))])"
proof -
  have v: "jwt_verify demo_env (JStr ''at1'') (JStr ''secret'') JUndefined
      = Some (JObj [(''clientId'', JStr ''c1''), (''scopes'', JStr ''lineitem'')])"
    by (simp add: demo_env_def)
  have g: "get_prop (JObj [(''clientId'', JStr ''c1''), (''scopes'', JStr ''lineitem'')]) ''scopes''
      = JStr ''lineitem''" by simp
  have n: "''memberships'' \<notin> set (js_split ''lineitem'')" by simp
  have a: "scope_authorized demo_env (tool_scopes demo_tool) ''memberships''"
    by (simp add: scope_authorized_def getScopeCode_def demo_env_def demo_tool_def)
  have ok: "Auth_validateAccessToken demo_env (JStr ''at2'') ''memberships'' (JStr ''secret'')
       = Inr (JObj [(''clientId'', JStr ''c1''), (''scopes'', JStr ''memberships''),
                    (''privacy'', JNum (tool_privacy demo_tool))])"
    by (simp add: Auth_validateAccessToken_def scope_authorized_def getScopeCode_def
          demo_env_def demo_tool_def)
  from validateAccessToken_scope_of_token
         [of demo_env "JStr ''at1''" "JStr ''secret''" _ "''lineitem''" "''memberships''"] v g n
  have "Auth_validateAccessToken demo_env (JStr ''at1'') ''memberships'' (JStr ''secret'')
       = Inl (INVALID_SCOPE_CLAIM_Details ''memberships'')" by blast
  with v n a ok show ?thesis by (simp only: simp_thms)
qed

section \<open>A grant without a client assertion\<close>

text \<open>
  C8 (the code departs from the claim). \<open>generateAccessToken\<close> decodes
  \<open>client_assertion\<close> and reads the payload of the result before it tests whether
  \<open>client_assertion\<close> is present. Without the parameter the decoding gives \<open>null\<close>, and the
  call fails with a TypeError; the \<open>MISSING_CLIENT_ASSERTION_CLAIM\<close> test is never reached.
\<close>

theorem generateAccessToken_without_assertion:
  assumes "\<not> nullish body"
    and "get_prop body ''grant_type'' = JStr ''client_credentials''"
    and "get_prop body ''client_assertion_type''
           = JStr ''urn:ietf:params:oauth:client-assertion-type:jwt-bearer''"
    and "get_prop body ''client_assertion'' = JUndefined"
  shows "generateAccessToken env body consumer encryptionkey = Inl TypeError"
  using assms by (simp add: generateAccessToken_def jwt_decode_complete_def)

theorem generateAccessToken_without_assertion_witness:
  "get_prop demo_grant_no_assertion ''grant_type'' = JStr ''client_credentials''
   \<and> get_prop demo_grant_no_assertion ''client_assertion_type''
        = JStr ''urn:ietf:params:oauth:client-assertion-type:jwt-bearer''
   \<and> get_prop demo_grant_no_assertion ''client_assertion'' = JUndefined
   \<and> generateAccessToken demo_env demo_grant_no_assertion demo_consumer (JStr ''secret'') = Inl TypeError
   \<and> generateAccessToken demo_env demo_grant_no_assertion demo_consumer (JStr ''secret'')
        \<noteq> Inl MISSING_CLIENT_ASSERTION_CLAIM"
proof -
  have h1: "\<not> nullish demo_grant_no_assertion" by (simp add: demo_grant_no_assertion_def)
  have h2: "get_prop demo_grant_no_assertion ''grant_type'' = JStr ''client_credentials''"
    by (simp add: demo_grant_no_assertion_def)
  have h3: "get_prop demo_grant_no_assertion ''client_assertion_type''
        = JStr ''urn:ietf:params:oauth:client-assertion-type:jwt-bearer''"
    by (simp add: demo_grant_no_assertion_def)
  have h4: "get_prop demo_grant_no_assertion ''client_assertion'' = JUndefined"
    by (simp add: demo_grant_no_assertion_def)
  from generateAccessToken_without_assertion [OF h1 h2 h3 h4, of demo_env demo_consumer "JStr ''secret''"]
  show ?thesis using h2 h3 h4 by simp
qed

section \<open>The Bearer scheme\<close>

lemma js_split_no_space: "CHR '' '' \<notin> set s \<Longrightarrow> js_split s = [s]"
  by (induction s) auto

lemma js_split_at_space: "CHR '' '' \<notin> set a \<Longrightarrow> js_split (a @ CHR '' '' # b) = a # js_split b"
  by (induction a) auto

text \<open>
  C9, as stated, fails: the scheme is compared with two spellings only. The header
  \<open>BEARER at2\<close> is answered with \<open>INVALID_AUTHORIZATION_HEADER\<close>.
\<close>

theorem bearer_uppercase_rejected:
  "validateAccessToken demo_env (JStr ''BEARER at2'') ''memberships'' (JStr ''secret'')
     = Responded401 INVALID_AUTHORIZATION_HEADER"
  by (simp add: validateAccessToken_def)

text \<open>
  C9, amended. For a header made of a scheme, one space and a token (neither containing a
  space), the access-token validation is reached exactly when the scheme is spelled
  \<open>Bearer\<close> or \<open>bearer\<close>, and then with that token; every other spelling is answered with
  \<open>INVALID_AUTHORIZATION_HEADER\<close>.
\<close>

theorem bearer_two_spellings:
  assumes "CHR '' '' \<notin> set scheme" and "CHR '' '' \<notin> set token"
  shows "validateAccessToken env (JStr (scheme @ '' '' @ token)) scope encryptionkey
           = (if scheme = ''Bearer'' \<or> scheme = ''bearer''
              then Validation (Auth_validateAccessToken env (JStr token) scope encryptionkey)
              else Responded401 INVALID_AUTHORIZATION_HEADER)"
proof -
  have "js_split (scheme @ '' '' @ token) = [scheme, token]"
    using assms by (simp add: js_split_at_space js_split_no_space)
  then show ?thesis by (simp add: validateAccessToken_def)
qed

theorem bearer_two_spellings_witness:
  "CHR '' '' \<notin> set ''bearer'' \<and> CHR '' '' \<notin> set ''BEARER'' \<and> CHR '' '' \<notin> set ''at2''
   \<and> validateAccessToken demo_env (JStr ''bearer at2'') ''memberships'' (JStr ''secret'')
       = Validation (Auth_validateAccessToken demo_env (JStr ''at2'') ''memberships'' (JStr ''secret''))
   \<and> validateAccessToken demo_env (JStr ''BEARER at2'') ''memberships'' (JStr ''secret'')
       = Responded401 INVALID_AUTHORIZATION_HEADER"
proof -
  have s1: "CHR '' '' \<notin> set ''bearer''" by simp
  have s2: "CHR '' '' \<notin> set ''BEARER''" by simp
  have t: "CHR '' '' \<notin> set ''at2''" by simp
  from bearer_two_spellings [OF s1 t, of demo_env "''memberships''" "JStr ''secret''"]
       bearer_two_spellings [OF s2 t, of demo_env "''memberships''" "JStr ''secret''"]
  show ?thesis using s1 s2 t by simp
qed

end
